theory Spec2Isabelle
  imports Complex_Main
begin

section \<open>Data model (models.py)\<close>

text \<open>
  Dates are \<open>datetime.date\<close> values; only their total order is used, so a date is its
  proleptic ordinal (an \<open>int\<close>). Prices are \<open>Decimal\<close> values that pydantic has already
  checked to be finite, so they are rationals. Python exceptions are values of \<open>error\<close>.
\<close>

datatype error =
    ValueError string
  | ValidationError string

text \<open>
  A float cell of a frame, and the \<open>Decimal\<close> that \<open>Decimal(str(cell))\<close> makes of it: a
  finite value, \<open>nan\<close>, or an infinity (\<open>Infty\<close> stands for either sign).
\<close>

datatype pyfloat = Num rat | NaN | Infty

fun finite_value :: "pyfloat \<Rightarrow> rat option" where
  "finite_value (Num q) = Some q"
| "finite_value NaN = None"
| "finite_value Infty = None"

record PriceData =
  p_date :: int
  p_open :: rat
  p_high :: rat
  p_low :: rat
  p_close :: rat
  p_volume :: int

text \<open>
  \<open>PriceData.check_price_relationships\<close>, the model validator that runs after the fields
  are set. The three \<open>if\<close> are tried in the order of the source; the \<open>is not None\<close>
  guards are true for every typed field.
\<close>

definition check_price_relationships :: "PriceData \<Rightarrow> error + PriceData" where
  "check_price_relationships self =
     (if p_high self < p_low self
        then Inl (ValueError ''High price must be >= Low price'')
      else if p_open self > p_high self \<or> p_open self < p_low self
        then Inl (ValueError ''Open price must be between Low and High'')
      else if p_close self > p_high self \<or> p_close self < p_low self
        then Inl (ValueError ''Close price must be between Low and High'')
      else Inr self)"

section \<open>The price loop of the fetch layer (data_fetcher.py, fetch_stock_data)\<close>

text \<open>
  One row of the history frame after \<open>reset_index\<close>: four float cells, which may be
  \<open>nan\<close>, and the integer volume.
\<close>

record HistoryRow =
  h_Date :: int
  h_Open :: pyfloat
  h_High :: pyfloat
  h_Low :: pyfloat
  h_Close :: pyfloat
  h_Volume :: int

text \<open>
  \<open>logging.warning(f"Invalid price row for {ticker} on {row['Date']}: {e}")\<close>: the three
  interpolated values are kept as the fields of the log entry.
\<close>

datatype log_entry = Warning string int error

text \<open>
  The constructor \<open>PriceData(date=..., open=Decimal(...), ...)\<close>. pydantic first
  validates the fields, and a \<open>Decimal\<close> field refuses a value that is not finite; only
  then it runs the validator, and reports a \<open>ValueError\<close> raised in it as a
  \<open>ValidationError\<close> with the message \<open>Value error, <message of the ValueError>\<close>.
\<close>

definition PriceData_init ::
  "int \<Rightarrow> pyfloat \<Rightarrow> pyfloat \<Rightarrow> pyfloat \<Rightarrow> pyfloat \<Rightarrow> int \<Rightarrow> error + PriceData" where
  "PriceData_init date_v open_v high_v low_v close_v volume_v =
     (case finite_value open_v of
        None \<Rightarrow> Inl (ValidationError ''Input should be a finite number'')
      | Some ov \<Rightarrow>
     (case finite_value high_v of
        None \<Rightarrow> Inl (ValidationError ''Input should be a finite number'')
      | Some hv \<Rightarrow>
     (case finite_value low_v of
        None \<Rightarrow> Inl (ValidationError ''Input should be a finite number'')
      | Some lv \<Rightarrow>
     (case finite_value close_v of
        None \<Rightarrow> Inl (ValidationError ''Input should be a finite number'')
      | Some cv \<Rightarrow>
     (case check_price_relationships
             \<lparr>p_date = date_v, p_open = ov, p_high = hv, p_low = lv, p_close = cv,
              p_volume = volume_v\<rparr> of
        Inr self \<Rightarrow> Inr self
      | Inl (ValueError msg) \<Rightarrow> Inl (ValidationError (''Value error, '' @ msg))
      | Inl e \<Rightarrow> Inl e)))))"

definition PriceData_of_row :: "HistoryRow \<Rightarrow> error + PriceData" where
  "PriceData_of_row row =
     PriceData_init (h_Date row) (h_Open row) (h_High row) (h_Low row) (h_Close row)
       (h_Volume row)"

text \<open>
  \<open>for _, row in df.iterrows(): try: result["prices"].append(PriceData(...))
  except ...: logging.warning(...)\<close>. The state is the list of prices collected so far
  and the log.
\<close>

fun fetch_prices ::
  "string \<Rightarrow> HistoryRow list \<Rightarrow> PriceData list \<times> log_entry list
     \<Rightarrow> PriceData list \<times> log_entry list" where
  "fetch_prices ticker [] st = st"
| "fetch_prices ticker (row # rows) (prices, lg) =
     (case PriceData_of_row row of
        Inr price \<Rightarrow> fetch_prices ticker rows (prices @ [price], lg)
      | Inl e \<Rightarrow> fetch_prices ticker rows (prices, lg @ [Warning ticker (h_Date row) e]))"

section \<open>Crossover detection (signals.py)\<close>

text \<open>
  The frame handed to the detectors: a \<open>date\<close> column and the two moving averages, which
  may be absent as columns (the flags) and null in a cell (\<open>None\<close>). The index of the frame
  is the default \<open>RangeIndex\<close>, so the label of a row is its position.
\<close>

record SignalRow =
  s_date :: int
  s_sma_50 :: "rat option"
  s_sma_200 :: "rat option"

record SignalFrame =
  has_sma_50 :: bool
  has_sma_200 :: bool
  sig_rows :: "SignalRow list"

text \<open>\<open>Series.shift(1)\<close>: every value moves one place down and the first place is null.\<close>

definition shift1 :: "'a option list \<Rightarrow> 'a option list" where
  "shift1 xs = take (length xs) (None # xs)"

text \<open>Elementwise comparisons of two series; a comparison with a null cell is false.\<close>

fun cmp_le :: "rat option \<Rightarrow> rat option \<Rightarrow> bool" where
  "cmp_le (Some a) (Some b) = (a \<le> b)"
| "cmp_le _ _ = False"

fun cmp_gt :: "rat option \<Rightarrow> rat option \<Rightarrow> bool" where
  "cmp_gt (Some a) (Some b) = (a > b)"
| "cmp_gt _ _ = False"

definition notna_mask :: "SignalRow list \<Rightarrow> bool list" where
  "notna_mask rows = map (\<lambda>r. s_sma_50 r \<noteq> None \<and> s_sma_200 r \<noteq> None) rows"

text \<open>\<open>df.loc[mask]\<close>: the rows whose mask is true, each with its label.\<close>

definition loc_mask :: "bool list \<Rightarrow> 'a list \<Rightarrow> (nat \<times> 'a) list" where
  "loc_mask msk rows =
     map (\<lambda>(i, b, r). (i, r))
       (filter (\<lambda>(i, b, r). b) (zip [0..<length rows] (zip msk rows)))"

definition detect_golden_crossover :: "SignalFrame \<Rightarrow> int list" where
  "detect_golden_crossover df =
     (if \<not> has_sma_50 df \<or> \<not> has_sma_200 df then []
      else
        let msk = notna_mask (sig_rows df) in
        if length (filter (\<lambda>b. b) msk) < 2 then []
        else
          let sel = loc_mask msk (sig_rows df);
              sma_50 = map (\<lambda>(i, r). s_sma_50 r) sel;
              sma_200 = map (\<lambda>(i, r). s_sma_200 r) sel;
              prev = map2 cmp_le (shift1 sma_50) (shift1 sma_200);
              curr = map2 cmp_gt sma_50 sma_200;
              cross = map2 (\<and>) prev curr;
              crossover_dates = map (\<lambda>((i, r), c). i) (filter (\<lambda>((i, r), c). c) (zip sel cross))
          in map (\<lambda>i. s_date (sig_rows df ! i)) crossover_dates)"

section \<open>The processing pipeline (processor.py)\<close>

datatype source = quarterly | annual | info

record FundamentalData =
  f_as_of :: int
  f_ticker :: string
  f_book_value :: "rat option"
  f_total_assets :: "rat option"
  f_total_liabilities :: "rat option"
  f_pe_ratio :: "rat option"
  f_pb_ratio :: "rat option"
  f_eps :: "rat option"
  f_revenue :: "rat option"
  f_net_income :: "rat option"
  f_enterprise_value :: "rat option"
  f_source :: source

record DailyMetrics =
  m_date :: int
  m_ticker :: string
  m_close :: rat
  m_sma_50 :: "rat option"
  m_sma_200 :: "rat option"
  m_high_52w :: "rat option"
  m_pct_from_high_52w :: "rat option"
  m_book_value_per_share :: "rat option"
  m_price_to_book :: "rat option"
  m_enterprise_value :: "rat option"

record RawData =
  prices :: "PriceData list"
  fundamentals :: "FundamentalData list"

subsection \<open>Cells of a frame\<close>

text \<open>
  A numeric cell of a pandas frame is a \<open>pyfloat\<close>. Arithmetic is exact on the finite
  values: the rounding of float64 is not modelled, so a finite cell holds the value that
  the operation has on the rationals, and the model follows the code where the float64
  operations are exact, as they are on the example inputs below. The values that are not
  finite are kept apart, because a division by zero does not raise in pandas but yields
  \<open>inf\<close> or \<open>nan\<close>, and pydantic refuses both in a \<open>Decimal\<close> field. A cell of an object
  column that holds Python's \<open>None\<close> is \<open>None\<close>.
\<close>

text \<open>\<open>Series.astype(float)\<close> on a column of optional decimals: \<open>None\<close> becomes \<open>nan\<close>.\<close>

fun astype_float :: "rat option \<Rightarrow> pyfloat" where
  "astype_float None = NaN"
| "astype_float (Some x) = Num x"

fun fdiv :: "pyfloat \<Rightarrow> pyfloat \<Rightarrow> pyfloat" where
  "fdiv (Num a) (Num b) = (if b = 0 then (if a = 0 then NaN else Infty) else Num (a / b))"
| "fdiv (Num a) Infty = Num 0"
| "fdiv Infty (Num b) = Infty"
| "fdiv _ _ = NaN"

text \<open>\<open>(x - 1) * 100\<close> on a float cell.\<close>

fun minus_one_times_100 :: "pyfloat \<Rightarrow> pyfloat" where
  "minus_one_times_100 (Num q) = Num ((q - 1) * 100)"
| "minus_one_times_100 NaN = NaN"
| "minus_one_times_100 Infty = Infty"

subsection \<open>Rolling windows\<close>

text \<open>
  \<open>Series.rolling(window=w, min_periods=m)\<close> at position \<open>i\<close> looks at the \<open>w\<close> most recent
  cells up to and including \<open>i\<close>; the result is \<open>nan\<close> when fewer than \<open>m\<close> cells are there.
  The \<open>close\<close> column holds finite values only.
\<close>

definition window :: "nat \<Rightarrow> 'a list \<Rightarrow> nat \<Rightarrow> 'a list" where
  "window w xs i = drop (Suc i - w) (take (Suc i) xs)"

definition rolling_mean :: "nat \<Rightarrow> nat \<Rightarrow> rat list \<Rightarrow> pyfloat list" where
  "rolling_mean w min_periods xs =
     map (\<lambda>i. let win = window w xs i
              in if length win < min_periods \<or> win = [] then NaN
                 else Num (sum_list win / of_nat (length win)))
       [0..<length xs]"

definition rolling_max :: "nat \<Rightarrow> nat \<Rightarrow> rat list \<Rightarrow> pyfloat list" where
  "rolling_max w min_periods xs =
     map (\<lambda>i. let win = window w xs i
              in if length win < min_periods \<or> win = [] then NaN
                 else Num (fold max (tl win) (hd win)))
       [0..<length xs]"

subsection \<open>The fundamentals frame\<close>

text \<open>
  The nine numeric columns of \<open>fund_df\<close>; \<open>as_of\<close> and \<open>ticker\<close> are dropped before the
  frames are joined (\<open>fund_df.drop(columns=["as_of", "ticker"], errors="ignore")\<close>).
\<close>

record FundCols =
  c_book_value :: "pyfloat option"
  c_total_assets :: "pyfloat option"
  c_total_liabilities :: "pyfloat option"
  c_pe_ratio :: "pyfloat option"
  c_pb_ratio :: "pyfloat option"
  c_eps :: "pyfloat option"
  c_revenue :: "pyfloat option"
  c_net_income :: "pyfloat option"
  c_enterprise_value :: "pyfloat option"

text \<open>A row of \<open>fund_df\<close> after the \<open>astype(float)\<close> loop over the nine columns.\<close>

definition float_cols :: "FundamentalData \<Rightarrow> FundCols" where
  "float_cols f =
     \<lparr>c_book_value = Some (astype_float (f_book_value f)),
      c_total_assets = Some (astype_float (f_total_assets f)),
      c_total_liabilities = Some (astype_float (f_total_liabilities f)),
      c_pe_ratio = Some (astype_float (f_pe_ratio f)),
      c_pb_ratio = Some (astype_float (f_pb_ratio f)),
      c_eps = Some (astype_float (f_eps f)),
      c_revenue = Some (astype_float (f_revenue f)),
      c_net_income = Some (astype_float (f_net_income f)),
      c_enterprise_value = Some (astype_float (f_enterprise_value f))\<rparr>"

text \<open>The row that \<open>reindex\<close> gives a date with no earlier observation: \<open>nan\<close> in every column.\<close>

definition nan_cols :: FundCols where
  "nan_cols =
     \<lparr>c_book_value = Some NaN, c_total_assets = Some NaN, c_total_liabilities = Some NaN,
      c_pe_ratio = Some NaN, c_pb_ratio = Some NaN, c_eps = Some NaN, c_revenue = Some NaN,
      c_net_income = Some NaN, c_enterprise_value = Some NaN\<rparr>"

text \<open>A row of \<open>pd.DataFrame({col: [None] * len(price_df) for col in fund_cols})\<close>.\<close>

definition none_cols :: FundCols where
  "none_cols =
     \<lparr>c_book_value = None, c_total_assets = None, c_total_liabilities = None,
      c_pe_ratio = None, c_pb_ratio = None, c_eps = None, c_revenue = None,
      c_net_income = None, c_enterprise_value = None\<rparr>"

text \<open>
  \<open>fund_df.set_index("as_of").reindex(price_df["date"], method="ffill")\<close> on the frame
  sorted by \<open>as_of\<close>. When the index already equals the requested labels, pandas keeps
  the rows as they are. Otherwise it refuses to reindex a frame whose index has a
  duplicate label (\<open>ValueError: cannot reindex on an axis with duplicate labels\<close>), and
  else each date receives the row of the last label that is not after it.
\<close>

definition ffill_row :: "FundamentalData list \<Rightarrow> int \<Rightarrow> FundCols" where
  "ffill_row fund_df d =
     (case filter (\<lambda>f. f_as_of f \<le> d) fund_df of
        [] \<Rightarrow> nan_cols
      | f # fs \<Rightarrow> float_cols (last (f # fs)))"

definition reindex_ffill :: "FundamentalData list \<Rightarrow> int list \<Rightarrow> error + FundCols list" where
  "reindex_ffill fund_df dates =
     (if map f_as_of fund_df = dates then Inr (map float_cols fund_df)
      else if \<not> distinct (map f_as_of fund_df)
        then Inl (ValueError ''cannot reindex on an axis with duplicate labels'')
      else Inr (map (ffill_row fund_df) dates))"

text \<open>Lines 45 to 68: the fundamentals frame on the price calendar.\<close>

definition build_fund_df :: "FundamentalData list \<Rightarrow> PriceData list \<Rightarrow> error + FundCols list" where
  "build_fund_df funds price_df =
     (if funds \<noteq> []
        then reindex_ffill (sort_key f_as_of funds) (map p_date price_df)
      else Inr (replicate (length price_df) none_cols))"

text \<open>Lines 74 to 78: pad with \<open>None\<close> rows or cut, so that both frames have one length.\<close>

definition fit_length :: "nat \<Rightarrow> FundCols list \<Rightarrow> FundCols list" where
  "fit_length n fund_df =
     (if length fund_df < n then fund_df @ replicate (n - length fund_df) none_cols
      else if length fund_df > n then take n fund_df
      else fund_df)"

subsection \<open>The merged frame and its indicators\<close>

text \<open>
  A row of \<open>merged\<close> once lines 79 to 127 have run: the price columns, the fundamentals
  columns, the \<open>ticker\<close> column, the four technical indicators and the two ratios.
\<close>

record MergedRow =
  g_price :: PriceData
  g_fund :: FundCols
  g_ticker :: "string option"
  g_sma_50 :: pyfloat
  g_sma_200 :: pyfloat
  g_high_52w :: pyfloat
  g_pct_from_high_52w :: pyfloat
  g_book_value_per_share :: "pyfloat option"
  g_price_to_book :: "pyfloat option"

text \<open>
  \<open>(row["close"] / row["book_value"]) if row.get("book_value") not in [None, 0] else None\<close>.
  A \<open>nan\<close> is neither \<open>None\<close> nor equal to \<open>0\<close>, so it reaches the division.
\<close>

definition price_to_book_of :: "rat \<Rightarrow> pyfloat option \<Rightarrow> pyfloat option" where
  "price_to_book_of close_v book_value =
     (case book_value of
        None \<Rightarrow> None
      | Some b \<Rightarrow> if b = Num 0 then None else Some (fdiv (Num close_v) b))"

text \<open>
  \<open>merged.apply(lambda row: ..., axis=1)\<close> collects the results of the rows in a new
  column. When at least one result is a float, the column is a float column and every
  \<open>None\<close> in it becomes \<open>nan\<close>; a column of \<open>None\<close> alone stays as it is.
\<close>

definition apply_column :: "pyfloat option list \<Rightarrow> pyfloat option list" where
  "apply_column results =
     (if list_all (\<lambda>r. r = None) results then results
      else map (\<lambda>r. case r of None \<Rightarrow> Some NaN | Some x \<Rightarrow> Some x) results)"

text \<open>
  The join is positional (\<open>pd.concat(axis=1)\<close> of two frames with a fresh \<open>RangeIndex\<close>).
  Neither frame has a \<open>ticker\<close> column at that point: the price frame never had one and
  the one of the fundamentals was dropped, so line 88 sets \<open>merged["ticker"] = None\<close>.
  The branch of line 90 needs an empty \<open>merged\<close> with a non-empty \<open>price_df\<close>, which the
  join never produces.
\<close>

definition merged_frame :: "PriceData list \<Rightarrow> FundCols list \<Rightarrow> MergedRow list" where
  "merged_frame price_df fund_df =
     (let close_col = map p_close price_df;
          sma_50 = rolling_mean 50 1 close_col;
          sma_200 = rolling_mean 200 1 close_col;
          high_52w = rolling_max 252 1 close_col;
          price_to_book =
            apply_column
              (map (\<lambda>i. price_to_book_of (close_col ! i) (c_book_value (fund_df ! i)))
                 [0..<length price_df])
      in map (\<lambda>i.
            \<lparr>g_price = price_df ! i,
             g_fund = fund_df ! i,
             g_ticker = None,
             g_sma_50 = sma_50 ! i,
             g_sma_200 = sma_200 ! i,
             g_high_52w = high_52w ! i,
             g_pct_from_high_52w = minus_one_times_100 (fdiv (Num (close_col ! i)) (high_52w ! i)),
             g_book_value_per_share = c_book_value (fund_df ! i),
             g_price_to_book = price_to_book ! i\<rparr>)
          [0..<length price_df])"

text \<open>
  Lines 177 to 185: the frame of the fallback, computed from \<open>price_df\<close> alone, with
  \<open>ticker = ""\<close> and the fundamental columns set to \<open>None\<close>.
\<close>

definition fallback_frame :: "PriceData list \<Rightarrow> MergedRow list" where
  "fallback_frame price_df =
     (let close_col = map p_close price_df;
          sma_50 = rolling_mean 50 1 close_col;
          sma_200 = rolling_mean 200 1 close_col;
          high_52w = rolling_max 252 1 close_col
      in map (\<lambda>i.
            \<lparr>g_price = price_df ! i,
             g_fund = none_cols,
             g_ticker = Some [],
             g_sma_50 = sma_50 ! i,
             g_sma_200 = sma_200 ! i,
             g_high_52w = high_52w ! i,
             g_pct_from_high_52w = minus_one_times_100 (fdiv (Num (close_col ! i)) (high_52w ! i)),
             g_book_value_per_share = None,
             g_price_to_book = None\<rparr>)
          [0..<length price_df])"

subsection \<open>Conversion to DailyMetrics\<close>

text \<open>
  The constructor of \<open>DailyMetrics\<close>, whose arguments are \<open>Decimal(str(cell))\<close> or \<open>None\<close>.
  pydantic validates the fields: \<open>ticker: str\<close> refuses \<open>None\<close>, and a \<open>Decimal\<close> field
  refuses a value that is not finite.
\<close>

fun is_finite :: "pyfloat option \<Rightarrow> bool" where
  "is_finite None = True"
| "is_finite (Some (Num q)) = True"
| "is_finite (Some NaN) = False"
| "is_finite (Some Infty) = False"

fun decimal_of :: "pyfloat option \<Rightarrow> rat option" where
  "decimal_of (Some (Num q)) = Some q"
| "decimal_of _ = None"

definition DailyMetrics_init ::
  "int \<Rightarrow> string option \<Rightarrow> rat \<Rightarrow> pyfloat option \<Rightarrow> pyfloat option \<Rightarrow> pyfloat option
     \<Rightarrow> pyfloat option \<Rightarrow> pyfloat option \<Rightarrow> pyfloat option \<Rightarrow> pyfloat option
     \<Rightarrow> error + DailyMetrics" where
  "DailyMetrics_init date_v ticker close_v sma_50 sma_200 high_52w pct bvps ptb ev =
     (case ticker of
        None \<Rightarrow> Inl (ValidationError ''ticker: Input should be a valid string'')
      | Some t \<Rightarrow>
          if is_finite sma_50 \<and> is_finite sma_200 \<and> is_finite high_52w \<and> is_finite pct
               \<and> is_finite bvps \<and> is_finite ptb \<and> is_finite ev
          then Inr \<lparr>m_date = date_v, m_ticker = t, m_close = close_v,
                    m_sma_50 = decimal_of sma_50, m_sma_200 = decimal_of sma_200,
                    m_high_52w = decimal_of high_52w, m_pct_from_high_52w = decimal_of pct,
                    m_book_value_per_share = decimal_of bvps, m_price_to_book = decimal_of ptb,
                    m_enterprise_value = decimal_of ev\<rparr>
          else Inl (ValidationError ''Input should be a finite number''))"

text \<open>
  The body of the loop of lines 131 to 174. The date and the close of a price row are
  never null, so the two \<open>continue\<close> of lines 133 to 136 are not taken.
\<close>

definition main_row :: "MergedRow \<Rightarrow> error + DailyMetrics" where
  "main_row row =
     DailyMetrics_init (p_date (g_price row)) (g_ticker row) (p_close (g_price row))
       (Some (g_sma_50 row)) (Some (g_sma_200 row)) (Some (g_high_52w row))
       (Some (g_pct_from_high_52w row))
       (g_book_value_per_share row) (g_price_to_book row) (c_enterprise_value (g_fund row))"

text \<open>The body of the loop of lines 186 to 215.\<close>

definition fallback_row :: "MergedRow \<Rightarrow> error + DailyMetrics" where
  "fallback_row row =
     DailyMetrics_init (p_date (g_price row)) (g_ticker row) (p_close (g_price row))
       (Some (g_sma_50 row)) (Some (g_sma_200 row)) (Some (g_high_52w row))
       (Some (g_pct_from_high_52w row))
       None None None"

text \<open>
  \<open>for _, row in frame.iterrows(): try: metrics.append(...) except Exception: continue\<close>,
  with the list \<open>metrics\<close> as the state.
\<close>

fun collect_metrics ::
  "(MergedRow \<Rightarrow> error + DailyMetrics) \<Rightarrow> MergedRow list \<Rightarrow> DailyMetrics list
     \<Rightarrow> DailyMetrics list" where
  "collect_metrics conv [] metrics = metrics"
| "collect_metrics conv (row # rows) metrics =
     (case conv row of
        Inr m \<Rightarrow> collect_metrics conv rows (metrics @ [m])
      | Inl e \<Rightarrow> collect_metrics conv rows metrics)"

text \<open>
  \<open>process_data\<close>. \<open>sort_values("date")\<close> is the stable \<open>sort_key\<close>; the order that pandas
  gives rows of one date is not specified. The conversions \<open>astype(float)\<close> of lines 27
  to 29 and \<open>Decimal(str(.))\<close> of the loops keep the value of a price, as float64 does
  for the prices of the example inputs. The returned frame is the list of its rows, and
  a raised exception is \<open>Inl\<close>.
\<close>

definition process_data :: "RawData \<Rightarrow> error + DailyMetrics list" where
  "process_data raw_data =
     (if prices raw_data = [] then Inr []
      else
        let price_df = sort_key p_date (prices raw_data) in
        case build_fund_df (fundamentals raw_data) price_df of
          Inl e \<Rightarrow> Inl e
        | Inr fund_df \<Rightarrow>
            let merged = merged_frame price_df (fit_length (length price_df) fund_df);
                metrics = collect_metrics main_row merged [];
                metrics = (if metrics = [] \<and> price_df \<noteq> []
                           then collect_metrics fallback_row (fallback_frame price_df) []
                           else metrics)
            in Inr metrics)"

section \<open>Example inputs\<close>

text \<open>
  Four rows of a price history for the fetch layer: the second has its high below its
  low, the third closes above its high, the fourth has no prices.
\<close>

definition bad_rows :: "HistoryRow list" where
  "bad_rows =
     [\<lparr>h_Date = 738521, h_Open = Num 10, h_High = Num 12, h_Low = Num 9, h_Close = Num 11,
       h_Volume = 1000\<rparr>,
      \<lparr>h_Date = 738522, h_Open = Num 11, h_High = Num 10, h_Low = Num 13, h_Close = Num 12,
       h_Volume = 1100\<rparr>,
      \<lparr>h_Date = 738523, h_Open = Num 12, h_High = Num 14, h_Low = Num 11, h_Close = Num 15,
       h_Volume = 1200\<rparr>,
      \<lparr>h_Date = 738524, h_Open = NaN, h_High = NaN, h_Low = NaN, h_Close = NaN,
       h_Volume = 0\<rparr>]"

text \<open>
  A frame for the detectors in which the third row has no \<open>sma_50\<close>: the rows around the
  gap are compared with each other.
\<close>

definition gap_frame :: SignalFrame where
  "gap_frame = \<lparr>has_sma_50 = True, has_sma_200 = True, sig_rows =
     [\<lparr>s_date = 1, s_sma_50 = Some 1, s_sma_200 = Some 2\<rparr>,
      \<lparr>s_date = 2, s_sma_50 = Some 2, s_sma_200 = Some 2\<rparr>,
      \<lparr>s_date = 3, s_sma_50 = None, s_sma_200 = Some 2\<rparr>,
      \<lparr>s_date = 4, s_sma_50 = Some 5, s_sma_200 = Some 2\<rparr>,
      \<lparr>s_date = 5, s_sma_50 = Some 7, s_sma_200 = Some 2\<rparr>]\<rparr>"

text \<open>
  Inputs for \<open>process_data\<close>. Dates are ordinals: 738521 is 2023-01-01. \<open>scenario\<close> is the
  input of \<open>test_sma_and_metrics\<close> (tests/test_processor.py) and \<open>scenario_rows\<close> the rows
  that \<open>process_data\<close> returns for it. \<open>carry_input\<close> has three observations, given out of
  order, of which the second is the latest one before the price date. \<open>ratio_input\<close> has
  an observation on each price date, the second without a book value. \<open>zero_input\<close> and
  \<open>drop_input\<close> hold a valid price row whose prices are all zero. \<open>dup_input\<close> has two
  observations of one date; in \<open>dup_same_input\<close> the two price rows have that date too.
\<close>

definition test_fundamental :: FundamentalData where
  "test_fundamental =
     \<lparr>f_as_of = 738520, f_ticker = ''TEST'', f_book_value = Some 10, f_total_assets = Some 100,
      f_total_liabilities = Some 50, f_pe_ratio = Some 15, f_pb_ratio = Some (11 / 10),
      f_eps = Some 2, f_revenue = Some 1000, f_net_income = Some 100,
      f_enterprise_value = Some 200, f_source = quarterly\<rparr>"

definition scenario :: RawData where
  "scenario = \<lparr>prices =
      [\<lparr>p_date = 738521, p_open = 10, p_high = 12, p_low = 9, p_close = 11, p_volume = 1000\<rparr>,
       \<lparr>p_date = 738522, p_open = 11, p_high = 13, p_low = 10, p_close = 12, p_volume = 1100\<rparr>,
       \<lparr>p_date = 738523, p_open = 12, p_high = 14, p_low = 11, p_close = 13, p_volume = 1200\<rparr>],
     fundamentals = [test_fundamental]\<rparr>"

definition scenario_rows :: "DailyMetrics list" where
  "scenario_rows =
     [\<lparr>m_date = 738521, m_ticker = [], m_close = 11, m_sma_50 = Some 11,
       m_sma_200 = Some 11, m_high_52w = Some 11, m_pct_from_high_52w = Some 0,
       m_book_value_per_share = None, m_price_to_book = None, m_enterprise_value = None\<rparr>,
      \<lparr>m_date = 738522, m_ticker = [], m_close = 12, m_sma_50 = Some (23 / 2),
       m_sma_200 = Some (23 / 2), m_high_52w = Some 12, m_pct_from_high_52w = Some 0,
       m_book_value_per_share = None, m_price_to_book = None, m_enterprise_value = None\<rparr>,
      \<lparr>m_date = 738523, m_ticker = [], m_close = 13, m_sma_50 = Some 12,
       m_sma_200 = Some 12, m_high_52w = Some 13, m_pct_from_high_52w = Some 0,
       m_book_value_per_share = None, m_price_to_book = None, m_enterprise_value = None\<rparr>]"

definition carry_input :: RawData where
  "carry_input = \<lparr>prices =
      [\<lparr>p_date = 738521, p_open = 10, p_high = 12, p_low = 9, p_close = 11, p_volume = 1000\<rparr>],
     fundamentals =
      [test_fundamental\<lparr>f_as_of := 738600, f_book_value := Some 12, f_enterprise_value := Some 250\<rparr>,
       test_fundamental,
       test_fundamental\<lparr>f_as_of := 738400, f_book_value := Some 8, f_enterprise_value := Some 150\<rparr>]\<rparr>"

definition ratio_input :: RawData where
  "ratio_input = \<lparr>prices =
      [\<lparr>p_date = 738521, p_open = 10, p_high = 12, p_low = 9, p_close = 11, p_volume = 1000\<rparr>,
       \<lparr>p_date = 738522, p_open = 11, p_high = 13, p_low = 10, p_close = 12, p_volume = 1100\<rparr>],
     fundamentals =
      [test_fundamental\<lparr>f_as_of := 738521\<rparr>,
       test_fundamental\<lparr>f_as_of := 738522, f_book_value := None\<rparr>]\<rparr>"

definition zero_input :: RawData where
  "zero_input = \<lparr>prices =
      [\<lparr>p_date = 738521, p_open = 0, p_high = 0, p_low = 0, p_close = 0, p_volume = 0\<rparr>],
     fundamentals = []\<rparr>"

definition drop_input :: RawData where
  "drop_input = \<lparr>prices =
      [\<lparr>p_date = 738521, p_open = 0, p_high = 0, p_low = 0, p_close = 0, p_volume = 0\<rparr>,
       \<lparr>p_date = 738522, p_open = 5, p_high = 5, p_low = 5, p_close = 5, p_volume = 10\<rparr>],
     fundamentals = []\<rparr>"

definition dup_input :: RawData where
  "dup_input = \<lparr>prices =
      [\<lparr>p_date = 738521, p_open = 10, p_high = 12, p_low = 9, p_close = 11, p_volume = 1000\<rparr>],
     fundamentals = [test_fundamental, test_fundamental\<lparr>f_book_value := Some 11\<rparr>]\<rparr>"

definition dup_same_input :: RawData where
  "dup_same_input = \<lparr>prices =
      [\<lparr>p_date = 738520, p_open = 10, p_high = 12, p_low = 9, p_close = 11, p_volume = 1000\<rparr>,
       \<lparr>p_date = 738520, p_open = 11, p_high = 13, p_low = 10, p_close = 12, p_volume = 1100\<rparr>],
     fundamentals = [test_fundamental, test_fundamental\<lparr>f_book_value := Some 11\<rparr>]\<rparr>"

section \<open>Properties\<close>

subsection \<open>Auxiliary facts\<close>

lemma check_price_cases:
  "check_price_relationships p =
     (if p_low p \<le> p_high p \<and> p_low p \<le> p_open p \<and> p_open p \<le> p_high p
          \<and> p_low p \<le> p_close p \<and> p_close p \<le> p_high p then Inr p
      else if \<not> p_low p \<le> p_high p then Inl (ValueError ''High price must be >= Low price'')
      else if \<not> (p_low p \<le> p_open p \<and> p_open p \<le> p_high p)
        then Inl (ValueError ''Open price must be between Low and High'')
      else Inl (ValueError ''Close price must be between Low and High''))"
  by (auto simp: check_price_relationships_def)

lemma PriceData_init_cases:
  "PriceData_init d (Num ov) (Num hv) (Num lv) (Num cv) v =
     (if lv \<le> hv \<and> lv \<le> ov \<and> ov \<le> hv \<and> lv \<le> cv \<and> cv \<le> hv
        then Inr \<lparr>p_date = d, p_open = ov, p_high = hv, p_low = lv, p_close = cv, p_volume = v\<rparr>
      else if \<not> lv \<le> hv
        then Inl (ValidationError ''Value error, High price must be >= Low price'')
      else if \<not> (lv \<le> ov \<and> ov \<le> hv)
        then Inl (ValidationError ''Value error, Open price must be between Low and High'')
      else Inl (ValidationError ''Value error, Close price must be between Low and High''))"
  unfolding PriceData_init_def check_price_cases by simp

lemma PriceData_init_not_finite:
  "finite_value o_v = None \<or> finite_value h_v = None \<or> finite_value l_v = None
      \<or> finite_value c_v = None \<Longrightarrow>
   PriceData_init d o_v h_v l_v c_v v = Inl (ValidationError ''Input should be a finite number'')"
  by (auto simp: PriceData_init_def split: option.splits)

lemma finite_value_Some: "finite_value x = Some q \<longleftrightarrow> x = Num q"
  by (cases x) auto

lemma finite_value_None: "finite_value x = None \<longleftrightarrow> (\<forall>q. x \<noteq> Num q)"
  by (cases x) auto

lemma PriceData_init_ok:
  "(\<exists>p. PriceData_init d o_v h_v l_v c_v v = Inr p) \<longleftrightarrow>
     (\<exists>ov hv lv cv. o_v = Num ov \<and> h_v = Num hv \<and> l_v = Num lv \<and> c_v = Num cv
        \<and> lv \<le> hv \<and> lv \<le> ov \<and> ov \<le> hv \<and> lv \<le> cv \<and> cv \<le> hv)"
proof (cases "finite_value o_v = None \<or> finite_value h_v = None \<or> finite_value l_v = None
      \<or> finite_value c_v = None")
  case True
  then have "PriceData_init d o_v h_v l_v c_v v = Inl (ValidationError ''Input should be a finite number'')"
    by (rule PriceData_init_not_finite)
  moreover have "\<not> (\<exists>ov hv lv cv. o_v = Num ov \<and> h_v = Num hv \<and> l_v = Num lv \<and> c_v = Num cv
        \<and> lv \<le> hv \<and> lv \<le> ov \<and> ov \<le> hv \<and> lv \<le> cv \<and> cv \<le> hv)"
    using True by (auto simp: finite_value_None)
  ultimately show ?thesis by simp
next
  case False
  then obtain ov hv lv cv where "o_v = Num ov" "h_v = Num hv" "l_v = Num lv" "c_v = Num cv"
    by (auto simp: finite_value_Some)
  then show ?thesis by (simp add: PriceData_init_cases)
qed

lemma PriceData_init_date:
  "PriceData_init d o_v h_v l_v c_v v = Inl e \<Longrightarrow> PriceData_init d' o_v h_v l_v c_v v' = Inl e"
proof (cases "finite_value o_v = None \<or> finite_value h_v = None \<or> finite_value l_v = None
      \<or> finite_value c_v = None")
  case True
  assume "PriceData_init d o_v h_v l_v c_v v = Inl e"
  then show ?thesis using PriceData_init_not_finite[OF True] by simp
next
  case False
  assume a: "PriceData_init d o_v h_v l_v c_v v = Inl e"
  from False obtain ov hv lv cv where "o_v = Num ov" "h_v = Num hv" "l_v = Num lv" "c_v = Num cv"
    by (auto simp: finite_value_Some)
  then show ?thesis using a by (auto simp: PriceData_init_cases split: if_splits)
qed

lemma fetch_prices_acc:
  "fetch_prices t rows (ps, lg) =
     (ps @ map (\<lambda>r. projr (PriceData_of_row r)) (filter (\<lambda>r. \<not> isl (PriceData_of_row r)) rows),
      lg @ map (\<lambda>r. Warning t (h_Date r) (projl (PriceData_of_row r)))
          (filter (\<lambda>r. isl (PriceData_of_row r)) rows))"
  by (induction rows arbitrary: ps lg) (auto split: sum.splits)

lemma shift1_length: "length (shift1 xs) = length xs"
  by (simp add: shift1_def)

lemma shift1_nth: "k < length xs \<Longrightarrow> shift1 xs ! k = (if k = 0 then None else xs ! (k - 1))"
  by (cases k) (simp_all add: shift1_def)

lemma select_by_flags:
  "length bs = length xs \<Longrightarrow>
     map fst (filter snd (zip xs bs)) = map (\<lambda>k. xs ! k) (filter (\<lambda>k. bs ! k) [0..<length xs])"
proof (induction xs arbitrary: bs rule: rev_induct)
  case Nil
  then show ?case by simp
next
  case (snoc x xs)
  then obtain bs' b where bs: "bs = bs' @ [b]" and len: "length bs' = length xs"
    by (cases bs rule: rev_cases) auto
  have f: "filter (\<lambda>k. (bs' @ [b]) ! k) [0..<length xs] = filter (\<lambda>k. bs' ! k) [0..<length xs]"
    by (rule filter_cong) (auto simp: nth_append len)
  have m: "map (\<lambda>k. (xs @ [x]) ! k) (filter (\<lambda>k. bs' ! k) [0..<length xs])
         = map (\<lambda>k. xs ! k) (filter (\<lambda>k. bs' ! k) [0..<length xs])"
    by (rule map_cong) (auto simp: nth_append)
  have last_b: "(bs' @ [b]) ! length xs = b" and last_x: "(xs @ [x]) ! length xs = x"
    using len by (simp_all add: nth_append)
  have "map (\<lambda>k. (xs @ [x]) ! k) (filter (\<lambda>k. (bs' @ [b]) ! k) [0..<length (xs @ [x])])
      = map (\<lambda>k. (xs @ [x]) ! k) (filter (\<lambda>k. bs' ! k) [0..<length xs] @ (if b then [length xs] else []))"
    using f last_b by simp
  also have "\<dots> = map (\<lambda>k. xs ! k) (filter (\<lambda>k. bs' ! k) [0..<length xs]) @ (if b then [x] else [])"
    using m last_x by simp
  also have "\<dots> = map fst (filter snd (zip xs bs')) @ (if b then [x] else [])"
    using snoc.IH[OF len] by simp
  also have "\<dots> = map fst (filter snd (zip (xs @ [x]) (bs' @ [b])))"
    using len by simp
  finally show ?case unfolding bs by simp
qed

lemma drop_zero_index:
  "\<not> P 0 \<Longrightarrow> filter P [0..<n] = filter P [1..<n]"
proof (cases "n = 0")
  case True
  then show ?thesis by simp
next
  case False
  assume "\<not> P 0"
  have "[0..<n] = 0 # [1..<n]" using False by (subst upt_rec) simp
  then show ?thesis using \<open>\<not> P 0\<close> by simp
qed

lemma loc_mask_enum:
  "loc_mask (notna_mask rows) rows =
     filter (\<lambda>(i, r). s_sma_50 r \<noteq> None \<and> s_sma_200 r \<noteq> None) (zip [0..<length rows] rows)"
proof -
  have "zip [0..<length rows] (zip (notna_mask rows) rows)
      = map (\<lambda>(i, r). (i, s_sma_50 r \<noteq> None \<and> s_sma_200 r \<noteq> None, r)) (zip [0..<length rows] rows)"
    by (rule nth_equalityI) (simp_all add: notna_mask_def)
  then show ?thesis
    by (simp add: loc_mask_def filter_map o_def case_prod_unfold)
qed

lemma enum_filter_snd:
  "map snd (filter (\<lambda>(i, r). P r) (zip [0..<length rows] rows)) = filter P rows"
proof -
  have "filter P rows = filter P (map snd (zip [0..<length rows] rows))" by simp
  also have "\<dots> = map snd (filter (P \<circ> snd) (zip [0..<length rows] rows))"
    by (rule filter_map)
  finally show ?thesis by (simp add: o_def case_prod_unfold)
qed

lemma enum_filter_label:
  "(i, r) \<in> set (filter (\<lambda>(i, r). P r) (zip [0..<length rows] rows)) \<Longrightarrow> rows ! i = r"
  by (auto simp: set_zip)

lemma valid_count:
  "length (filter (\<lambda>b. b) (notna_mask rows))
     = length (filter (\<lambda>r. s_sma_50 r \<noteq> None \<and> s_sma_200 r \<noteq> None) rows)"
  by (simp add: notna_mask_def filter_map o_def)

lemma cross_nth:
  assumes v: "\<forall>p \<in> set sel. s_sma_50 (snd p) \<noteq> None \<and> s_sma_200 (snd p) \<noteq> None"
    and k: "k < length sel"
  shows "map2 (\<and>)
           (map2 cmp_le (shift1 (map (\<lambda>(i, r). s_sma_50 r) sel)) (shift1 (map (\<lambda>(i, r). s_sma_200 r) sel)))
           (map2 cmp_gt (map (\<lambda>(i, r). s_sma_50 r) sel) (map (\<lambda>(i, r). s_sma_200 r) sel)) ! k
         = (0 < k \<and> the (s_sma_50 (snd (sel ! (k - 1)))) \<le> the (s_sma_200 (snd (sel ! (k - 1))))
              \<and> the (s_sma_200 (snd (sel ! k))) < the (s_sma_50 (snd (sel ! k))))"
proof -
  have cur: "s_sma_50 (snd (sel ! k)) \<noteq> None \<and> s_sma_200 (snd (sel ! k)) \<noteq> None"
    using v k by simp
  have prv: "0 < k \<Longrightarrow> s_sma_50 (snd (sel ! (k - 1))) \<noteq> None \<and> s_sma_200 (snd (sel ! (k - 1))) \<noteq> None"
    using v k by simp
  show ?thesis
  proof (cases "k = 0")
    case True
    then show ?thesis using k by (simp add: shift1_length shift1_nth)
  next
    case False
    then have "0 < k" by simp
    from prv[OF this] cur show ?thesis using k False
      by (auto simp: shift1_length shift1_nth case_prod_unfold)
  qed
qed

lemma sorted_pick:
  "sorted (map f xs) \<Longrightarrow> sorted (map (\<lambda>k. f (xs ! k)) (filter P [a..<length xs]))"
proof -
  assume s: "sorted (map f xs)"
  have "sorted_wrt (\<lambda>i j. f (xs ! i) \<le> f (xs ! j)) [a..<length xs]"
  proof (rule sorted_wrt_mono_rel[where P = "(<)"])
    fix i j assume "i \<in> set [a..<length xs]" "j \<in> set [a..<length xs]" "i < j"
    then have "i \<le> j" "j < length (map f xs)" by simp_all
    from sorted_nth_mono[OF s this] show "f (xs ! i) \<le> f (xs ! j)"
      using \<open>i < j\<close> \<open>j < length (map f xs)\<close> by simp
  next
    show "sorted_wrt (<) [a..<length xs]" by simp
  qed
  then have "sorted_wrt (\<lambda>i j. f (xs ! i) \<le> f (xs ! j)) (filter P [a..<length xs])"
    by (rule sorted_wrt_filter)
  then show ?thesis by (simp add: sorted_wrt_map)
qed

lemma golden_scan_char:
  "has_sma_50 df \<and> has_sma_200 df \<longrightarrow>
     (let vs = filter (\<lambda>r. s_sma_50 r \<noteq> None \<and> s_sma_200 r \<noteq> None) (sig_rows df)
      in detect_golden_crossover df =
           map (\<lambda>k. s_date (vs ! k))
             (filter (\<lambda>k. the (s_sma_50 (vs ! (k - 1))) \<le> the (s_sma_200 (vs ! (k - 1)))
                        \<and> the (s_sma_200 (vs ! k)) < the (s_sma_50 (vs ! k)))
                [1..<length vs]))"
proof (intro impI)
  assume cols: "has_sma_50 df \<and> has_sma_200 df"
  define rows where "rows = sig_rows df"
  define valid where "valid = (\<lambda>r::SignalRow. s_sma_50 r \<noteq> None \<and> s_sma_200 r \<noteq> None)"
  define vs where "vs = filter valid rows"
  define sel where "sel = filter (\<lambda>(i, r). valid r) (zip [0..<length rows] rows)"
  define cross where "cross = map2 (\<and>)
           (map2 cmp_le (shift1 (map (\<lambda>(i, r). s_sma_50 r) sel)) (shift1 (map (\<lambda>(i, r). s_sma_200 r) sel)))
           (map2 cmp_gt (map (\<lambda>(i, r). s_sma_50 r) sel) (map (\<lambda>(i, r). s_sma_200 r) sel))"
  define cond where "cond = (\<lambda>k. the (s_sma_50 (vs ! (k - 1))) \<le> the (s_sma_200 (vs ! (k - 1)))
                        \<and> the (s_sma_200 (vs ! k)) < the (s_sma_50 (vs ! k)))"
  have sel_loc: "loc_mask (notna_mask rows) rows = sel"
    by (simp add: loc_mask_enum sel_def valid_def)
  have sel_vs: "map snd sel = vs"
    unfolding sel_def vs_def by (rule enum_filter_snd)
  then have len: "length sel = length vs"
    by (metis length_map)
  have nth_vs: "snd (sel ! k) = vs ! k" if "k < length sel" for k
    using that sel_vs by (metis nth_map)
  have sel_valid: "\<forall>p \<in> set sel. s_sma_50 (snd p) \<noteq> None \<and> s_sma_200 (snd p) \<noteq> None"
    by (auto simp: sel_def valid_def)
  have label: "rows ! fst p = snd p" if "p \<in> set sel" for p
    using that enum_filter_label[of "fst p" "snd p" valid rows] by (simp add: sel_def)
  have cross_len: "length cross = length sel"
    by (simp add: cross_def shift1_length)
  have cross_k: "cross ! k = (0 < k \<and> cond k)" if "k < length sel" for k
    using cross_nth[OF sel_valid that] that by (simp add: cross_def cond_def nth_vs)
  have detect: "detect_golden_crossover df =
      (if length vs < 2 then []
       else map (\<lambda>i. s_date (rows ! i)) (map (\<lambda>((i, r), c). i) (filter (\<lambda>((i, r), c). c) (zip sel cross))))"
    using cols unfolding detect_golden_crossover_def Let_def rows_def[symmetric] sel_loc valid_count
    by (simp add: vs_def valid_def cross_def)
  have scan: "map (\<lambda>i. s_date (rows ! i)) (map (\<lambda>((i, r), c). i) (filter (\<lambda>((i, r), c). c) (zip sel cross)))
      = map (\<lambda>k. s_date (vs ! k)) (filter cond [1..<length vs])"
  proof -
    have "map (\<lambda>((i, r), c). i) (filter (\<lambda>((i, r), c). c) (zip sel cross))
        = map fst (map fst (filter snd (zip sel cross)))"
      by (simp add: case_prod_unfold o_def)
    also have "\<dots> = map fst (map (\<lambda>k. sel ! k) (filter (\<lambda>k. cross ! k) [0..<length sel]))"
      using select_by_flags[OF cross_len] by simp
    also have "filter (\<lambda>k. cross ! k) [0..<length sel] = filter (\<lambda>k. 0 < k \<and> cond k) [0..<length sel]"
      by (rule filter_cong) (auto simp: cross_k)
    also have "\<dots> = filter (\<lambda>k. 0 < k \<and> cond k) [1..<length sel]"
      by (rule drop_zero_index) simp
    also have "\<dots> = filter cond [1..<length vs]"
      unfolding len by (rule filter_cong) auto
    finally have labels: "map (\<lambda>((i, r), c). i) (filter (\<lambda>((i, r), c). c) (zip sel cross))
        = map (\<lambda>k. fst (sel ! k)) (filter cond [1..<length vs])"
      by (simp add: o_def case_prod_unfold)
    have "map (\<lambda>i. s_date (rows ! i)) (map (\<lambda>k. fst (sel ! k)) (filter cond [1..<length vs]))
        = map (\<lambda>k. s_date (vs ! k)) (filter cond [1..<length vs])"
    proof -
      have "rows ! fst (sel ! k) = vs ! k" if "k \<in> set (filter cond [1..<length vs])" for k
      proof -
        from that have "k < length sel" using len by simp
        then show ?thesis using label[of "sel ! k"] nth_vs[of k] by simp
      qed
      then show ?thesis by simp
    qed
    then show ?thesis using labels by simp
  qed
  have short: "length vs < 2 \<Longrightarrow> filter cond [1..<length vs] = []"
    by (cases "length vs") auto
  show "let vs = filter (\<lambda>r. s_sma_50 r \<noteq> None \<and> s_sma_200 r \<noteq> None) (sig_rows df)
      in detect_golden_crossover df =
           map (\<lambda>k. s_date (vs ! k))
             (filter (\<lambda>k. the (s_sma_50 (vs ! (k - 1))) \<le> the (s_sma_200 (vs ! (k - 1)))
                        \<and> the (s_sma_200 (vs ! k)) < the (s_sma_50 (vs ! k)))
                [1..<length vs])"
    using detect scan short
    by (simp add: Let_def vs_def[symmetric, unfolded valid_def rows_def] cond_def
          vs_def valid_def rows_def)
qed

lemma collect_metrics_acc:
  "collect_metrics conv rows acc =
     acc @ map (\<lambda>r. projr (conv r)) (filter (\<lambda>r. \<not> isl (conv r)) rows)"
  by (induction rows arbitrary: acc) (auto split: sum.splits)

lemma main_row_no_ticker: "g_ticker row = None \<Longrightarrow> isl (main_row row)"
  by (simp add: main_row_def DailyMetrics_init_def)

lemma merged_frame_ticker: "row \<in> set (merged_frame price_df fund_df) \<Longrightarrow> g_ticker row = None"
  by (auto simp: merged_frame_def Let_def)

lemma main_loop_empty: "collect_metrics main_row (merged_frame price_df fund_df) [] = []"
  by (simp add: collect_metrics_acc filter_empty_conv main_row_no_ticker merged_frame_ticker)

lemma process_data_fallback:
  "process_data raw_data =
     (if prices raw_data = [] then Inr []
      else case build_fund_df (fundamentals raw_data) (sort_key p_date (prices raw_data)) of
             Inl e \<Rightarrow> Inl e
           | Inr fund_df \<Rightarrow>
               Inr (collect_metrics fallback_row
                      (fallback_frame (sort_key p_date (prices raw_data))) []))"
proof -
  have ne: "prices raw_data \<noteq> [] \<Longrightarrow> sort_key p_date (prices raw_data) \<noteq> []"
    by (metis length_sort length_0_conv)
  show ?thesis
    by (auto simp: process_data_def Let_def main_loop_empty ne split: sum.splits)
qed

lemma map_insort_key: "map f (insort_key f x xs) = insort (f x) (map f xs)"
  by (induction xs) simp_all

lemma map_sort_key: "map f (sort_key f xs) = sort (map f xs)"
  by (induction xs) (simp_all add: map_insort_key)

lemma distinct_keys_sort: "distinct (map f (sort_key f xs)) = distinct (map f xs)"
  by (simp add: map_sort_key)

lemma fallback_frame_length: "length (fallback_frame pd) = length pd"
  by (simp add: fallback_frame_def Let_def)

lemma merged_frame_length: "length (merged_frame pd fd) = length pd"
  by (simp add: merged_frame_def Let_def)

lemma fallback_row_fields:
  assumes "row \<in> set (fallback_frame pd)" "fallback_row row = Inr m"
  shows "m_ticker m = [] \<and> m_book_value_per_share m = None \<and> m_price_to_book m = None
           \<and> m_enterprise_value m = None"
proof -
  from assms(1) have "g_ticker row = Some []"
    by (auto simp: fallback_frame_def Let_def)
  then show ?thesis using assms(2)
    by (auto simp: fallback_row_def DailyMetrics_init_def split: if_splits)
qed

lemma build_fund_df_ok:
  "build_fund_df funds pd =
     (if funds = [] then Inr (replicate (length pd) none_cols)
      else if map f_as_of (sort_key f_as_of funds) = map p_date pd
        then Inr (map float_cols (sort_key f_as_of funds))
      else if \<not> distinct (map f_as_of funds)
        then Inl (ValueError ''cannot reindex on an axis with duplicate labels'')
      else Inr (map (ffill_row (sort_key f_as_of funds)) (map p_date pd)))"
  by (simp add: build_fund_df_def reindex_ffill_def distinct_keys_sort)

lemma scenario_eval: "process_data scenario = Inr scenario_rows"
  by code_simp

lemma process_data_returns:
  "fundamentals raw_data = [] \<or> distinct (map f_as_of (fundamentals raw_data)) \<Longrightarrow>
     process_data raw_data =
       Inr (if prices raw_data = [] then []
            else collect_metrics fallback_row (fallback_frame (sort_key p_date (prices raw_data))) [])"
  by (auto simp: process_data_fallback build_fund_df_ok)

lemma process_data_rows:
  "process_data raw_data = Inr rows \<Longrightarrow> prices raw_data \<noteq> [] \<Longrightarrow>
     rows = collect_metrics fallback_row (fallback_frame (sort_key p_date (prices raw_data))) []"
  by (auto simp: process_data_fallback split: sum.splits)

subsection \<open>Record validation\<close>

text \<open>
  Claim C9, as amended. Constructing a \<open>PriceData\<close> succeeds exactly when the four
  prices are finite and \<open>low \<le> high\<close>, \<open>low \<le> open \<le> high\<close> and \<open>low \<le> close \<le> high\<close>.
  Otherwise the construction is rejected with a \<open>ValidationError\<close>; for finite prices
  its message names the first relationship that is violated. The error does not name
  the date: it is the same for every date. The fetch loop keeps exactly the rows whose
  construction succeeds, in their order, and records one warning for every other row,
  which names the ticker, the date of the row and the error; no row stops the loop.
\<close>

theorem check_price_relationships_spec:
  "((\<exists>p. PriceData_init d o_v h_v l_v c_v v = Inr p) \<longleftrightarrow>
       (\<exists>ov hv lv cv. o_v = Num ov \<and> h_v = Num hv \<and> l_v = Num lv \<and> c_v = Num cv
          \<and> lv \<le> hv \<and> lv \<le> ov \<and> ov \<le> hv \<and> lv \<le> cv \<and> cv \<le> hv))
   \<and> (hv < lv \<longrightarrow>
         PriceData_init d (Num ov) (Num hv) (Num lv) (Num cv) v =
           Inl (ValidationError ''Value error, High price must be >= Low price''))
   \<and> (lv \<le> hv \<and> \<not> (lv \<le> ov \<and> ov \<le> hv) \<longrightarrow>
         PriceData_init d (Num ov) (Num hv) (Num lv) (Num cv) v =
           Inl (ValidationError ''Value error, Open price must be between Low and High''))
   \<and> (lv \<le> ov \<and> ov \<le> hv \<and> \<not> (lv \<le> cv \<and> cv \<le> hv) \<longrightarrow>
         PriceData_init d (Num ov) (Num hv) (Num lv) (Num cv) v =
           Inl (ValidationError ''Value error, Close price must be between Low and High''))
   \<and> (PriceData_init d o_v h_v l_v c_v v = Inl e \<longrightarrow>
         PriceData_init d' o_v h_v l_v c_v v = Inl e)
   \<and> fst (fetch_prices ticker rows ([], [])) =
        map (\<lambda>r. projr (PriceData_of_row r)) (filter (\<lambda>r. \<not> isl (PriceData_of_row r)) rows)
   \<and> snd (fetch_prices ticker rows ([], [])) =
        map (\<lambda>r. Warning ticker (h_Date r) (projl (PriceData_of_row r)))
          (filter (\<lambda>r. isl (PriceData_of_row r)) rows)"
proof -
  have a: "(\<exists>p. PriceData_init d o_v h_v l_v c_v v = Inr p) \<longleftrightarrow>
       (\<exists>ov hv lv cv. o_v = Num ov \<and> h_v = Num hv \<and> l_v = Num lv \<and> c_v = Num cv
          \<and> lv \<le> hv \<and> lv \<le> ov \<and> ov \<le> hv \<and> lv \<le> cv \<and> cv \<le> hv)"
    by (rule PriceData_init_ok)
  have b: "hv < lv \<longrightarrow>
         PriceData_init d (Num ov) (Num hv) (Num lv) (Num cv) v =
           Inl (ValidationError ''Value error, High price must be >= Low price'')"
    by (simp add: PriceData_init_cases)
  have c: "lv \<le> hv \<and> \<not> (lv \<le> ov \<and> ov \<le> hv) \<longrightarrow>
         PriceData_init d (Num ov) (Num hv) (Num lv) (Num cv) v =
           Inl (ValidationError ''Value error, Open price must be between Low and High'')"
    by (simp add: PriceData_init_cases)
  have d: "lv \<le> ov \<and> ov \<le> hv \<and> \<not> (lv \<le> cv \<and> cv \<le> hv) \<longrightarrow>
         PriceData_init d (Num ov) (Num hv) (Num lv) (Num cv) v =
           Inl (ValidationError ''Value error, Close price must be between Low and High'')"
    by (auto simp: PriceData_init_cases)
  have e: "PriceData_init d o_v h_v l_v c_v v = Inl e \<longrightarrow>
         PriceData_init d' o_v h_v l_v c_v v = Inl e"
    using PriceData_init_date[of d o_v h_v l_v c_v v e d' v] by blast
  have f: "fetch_prices ticker rows ([], []) =
     (map (\<lambda>r. projr (PriceData_of_row r)) (filter (\<lambda>r. \<not> isl (PriceData_of_row r)) rows),
      map (\<lambda>r. Warning ticker (h_Date r) (projl (PriceData_of_row r)))
          (filter (\<lambda>r. isl (PriceData_of_row r)) rows))"
    using fetch_prices_acc[of ticker rows "[]" "[]"] by simp
  show ?thesis using a b c d e f by simp
qed

theorem check_price_relationships_spec_witness:
  "PriceData_init 738522 (Num 11) (Num 10) (Num 13) (Num 12) 1100 =
       Inl (ValidationError ''Value error, High price must be >= Low price'')
   \<and> PriceData_init 738523 (Num 12) (Num 14) (Num 11) (Num 15) 1200 =
       Inl (ValidationError ''Value error, Close price must be between Low and High'')
   \<and> PriceData_init 738525 (Num 20) (Num 14) (Num 11) (Num 12) 1300 =
       Inl (ValidationError ''Value error, Open price must be between Low and High'')
   \<and> PriceData_init 738530 (Num 11) (Num 10) (Num 13) (Num 12) 1100 =
       Inl (ValidationError ''Value error, High price must be >= Low price'')
   \<and> fetch_prices ''TEST'' bad_rows ([], []) =
       ([\<lparr>p_date = 738521, p_open = 10, p_high = 12, p_low = 9, p_close = 11, p_volume = 1000\<rparr>],
        [Warning ''TEST'' 738522 (ValidationError ''Value error, High price must be >= Low price''),
         Warning ''TEST'' 738523
           (ValidationError ''Value error, Close price must be between Low and High''),
         Warning ''TEST'' 738524 (ValidationError ''Input should be a finite number'')])"
proof -
  have e2: "PriceData_init 738522 (Num 11) (Num 10) (Num 13) (Num 12) 1100 =
       Inl (ValidationError ''Value error, High price must be >= Low price'')"
    using check_price_relationships_spec
      [of 738522 "Num 11" "Num 10" "Num 13" "Num 12" 1100 10 13 11 12 _ 738530 "''TEST''" bad_rows]
    by simp
  have e3: "PriceData_init 738523 (Num 12) (Num 14) (Num 11) (Num 15) 1200 =
       Inl (ValidationError ''Value error, Close price must be between Low and High'')"
    using check_price_relationships_spec
      [of 738523 "Num 12" "Num 14" "Num 11" "Num 15" 1200 14 11 12 15 _ 738530 "''TEST''" bad_rows]
    by simp
  have e4: "PriceData_init 738525 (Num 20) (Num 14) (Num 11) (Num 12) 1300 =
       Inl (ValidationError ''Value error, Open price must be between Low and High'')"
    using check_price_relationships_spec
      [of 738525 "Num 20" "Num 14" "Num 11" "Num 12" 1300 14 11 20 12 _ 738530 "''TEST''" bad_rows]
    by simp
  have e2': "PriceData_init 738530 (Num 11) (Num 10) (Num 13) (Num 12) 1100 =
       Inl (ValidationError ''Value error, High price must be >= Low price'')"
    using check_price_relationships_spec
      [of 738522 "Num 11" "Num 10" "Num 13" "Num 12" 1100 10 13 11 12
          "ValidationError ''Value error, High price must be >= Low price''"
          738530 "''TEST''" bad_rows] e2
    by simp
  have "fst (fetch_prices ''TEST'' bad_rows ([], [])) =
      [\<lparr>p_date = 738521, p_open = 10, p_high = 12, p_low = 9, p_close = 11, p_volume = 1000\<rparr>]"
    and "snd (fetch_prices ''TEST'' bad_rows ([], [])) =
      [Warning ''TEST'' 738522 (ValidationError ''Value error, High price must be >= Low price''),
       Warning ''TEST'' 738523
         (ValidationError ''Value error, Close price must be between Low and High''),
       Warning ''TEST'' 738524 (ValidationError ''Input should be a finite number'')]"
    using check_price_relationships_spec
      [of 738522 "Num 11" "Num 10" "Num 13" "Num 12" 1100 10 13 11 12 _ 738530 "''TEST''" bad_rows]
      e2 e3
    by (simp_all add: bad_rows_def PriceData_of_row_def PriceData_init_cases
          PriceData_init_not_finite)
  then show ?thesis using e2 e3 e4 e2' by (simp add: prod_eq_iff)
qed

text \<open>
  The claim as stated fails. A record whose high is below its low is rejected with the
  same error on 2023-01-02 and on 2023-01-03, so the error does not name the date; and a
  record whose four prices are one and the same infinite value, which violates none of
  the relationships, is rejected as well.
\<close>

theorem check_price_relationships_spec_counterexample:
  "PriceData_init 738522 (Num 11) (Num 10) (Num 13) (Num 12) 1100 =
       Inl (ValidationError ''Value error, High price must be >= Low price'')
   \<and> PriceData_init 738523 (Num 11) (Num 10) (Num 13) (Num 12) 1100 =
       Inl (ValidationError ''Value error, High price must be >= Low price'')
   \<and> PriceData_init 738522 Infty Infty Infty Infty 1100 =
       Inl (ValidationError ''Input should be a finite number'')"
  by (simp add: PriceData_init_cases PriceData_init_not_finite)

subsection \<open>Golden-cross detection\<close>

text \<open>
  Claim C5. When both moving-average columns are present, \<open>detect_golden_crossover\<close>
  returns the dates of exactly those valid rows (rows with both averages non-null, taken
  in the order of the frame) at position \<open>k \<ge> 1\<close> among the valid rows whose predecessor
  among the valid rows has \<open>sma_50 \<le> sma_200\<close> and which themselves have
  \<open>sma_50 > sma_200\<close>. Rows with a null average are skipped without resetting the
  comparison, every crossover is reported, and the dates come out ascending when the
  frame is in ascending date order.
\<close>

theorem detect_golden_crossover_spec:
  "has_sma_50 df \<and> has_sma_200 df \<longrightarrow>
     (let vs = filter (\<lambda>r. s_sma_50 r \<noteq> None \<and> s_sma_200 r \<noteq> None) (sig_rows df)
      in detect_golden_crossover df =
           map (\<lambda>k. s_date (vs ! k))
             (filter (\<lambda>k. the (s_sma_50 (vs ! (k - 1))) \<le> the (s_sma_200 (vs ! (k - 1)))
                        \<and> the (s_sma_200 (vs ! k)) < the (s_sma_50 (vs ! k)))
                [1..<length vs])
         \<and> (sorted (map s_date (sig_rows df)) \<longrightarrow> sorted (detect_golden_crossover df)))"
proof (intro impI)
  assume cols: "has_sma_50 df \<and> has_sma_200 df"
  define vs where "vs = filter (\<lambda>r. s_sma_50 r \<noteq> None \<and> s_sma_200 r \<noteq> None) (sig_rows df)"
  define cond where "cond = (\<lambda>k. the (s_sma_50 (vs ! (k - 1))) \<le> the (s_sma_200 (vs ! (k - 1)))
                        \<and> the (s_sma_200 (vs ! k)) < the (s_sma_50 (vs ! k)))"
  have char: "detect_golden_crossover df = map (\<lambda>k. s_date (vs ! k)) (filter cond [1..<length vs])"
    using golden_scan_char[of df] cols by (simp add: Let_def vs_def cond_def)
  have ord: "sorted (detect_golden_crossover df)" if "sorted (map s_date (sig_rows df))"
  proof -
    from that have "sorted (map s_date vs)" unfolding vs_def by (rule sorted_filter)
    then show ?thesis unfolding char by (rule sorted_pick)
  qed
  show "let vs = filter (\<lambda>r. s_sma_50 r \<noteq> None \<and> s_sma_200 r \<noteq> None) (sig_rows df)
      in detect_golden_crossover df =
           map (\<lambda>k. s_date (vs ! k))
             (filter (\<lambda>k. the (s_sma_50 (vs ! (k - 1))) \<le> the (s_sma_200 (vs ! (k - 1)))
                        \<and> the (s_sma_200 (vs ! k)) < the (s_sma_50 (vs ! k)))
                [1..<length vs])
         \<and> (sorted (map s_date (sig_rows df)) \<longrightarrow> sorted (detect_golden_crossover df))"
    using char ord unfolding Let_def vs_def[symmetric] cond_def[symmetric] by blast
qed

theorem detect_golden_crossover_spec_witness:
  "has_sma_50 gap_frame \<and> has_sma_200 gap_frame
     \<and> sorted (map s_date (sig_rows gap_frame))
     \<and> detect_golden_crossover gap_frame = [4]
     \<and> sorted (detect_golden_crossover gap_frame)"
proof -
  have cols: "has_sma_50 gap_frame \<and> has_sma_200 gap_frame"
    by (simp add: gap_frame_def)
  have srt: "sorted (map s_date (sig_rows gap_frame))"
    by (simp add: gap_frame_def)
  have vs: "filter (\<lambda>r. s_sma_50 r \<noteq> None \<and> s_sma_200 r \<noteq> None) (sig_rows gap_frame) =
     [\<lparr>s_date = 1, s_sma_50 = Some 1, s_sma_200 = Some 2\<rparr>,
      \<lparr>s_date = 2, s_sma_50 = Some 2, s_sma_200 = Some 2\<rparr>,
      \<lparr>s_date = 4, s_sma_50 = Some 5, s_sma_200 = Some 2\<rparr>,
      \<lparr>s_date = 5, s_sma_50 = Some 7, s_sma_200 = Some 2\<rparr>]"
    by (simp add: gap_frame_def)
  have idx: "[1..<4] = [1, 2, 3::nat]"
    by (simp add: upt_rec)
  from detect_golden_crossover_spec[of gap_frame] cols
  have "detect_golden_crossover gap_frame = [4]
      \<and> (sorted (map s_date (sig_rows gap_frame)) \<longrightarrow> sorted (detect_golden_crossover gap_frame))"
    unfolding Let_def vs by (simp add: idx)
  with cols srt show ?thesis by simp
qed

subsection \<open>The conversion loop and the fallback\<close>

text \<open>
  Claim C3. Whenever the price list is not empty and \<open>process_data\<close> returns, the rows of
  the merged frame all fail the validation of \<open>DailyMetrics\<close> (their ticker is \<open>None\<close>), so
  the main loop collects nothing, whatever the fundamentals frame is, and the result is
  the one of the fallback computed from the prices alone. It is the result for the same
  prices with no fundamentals, and every row of it has the empty ticker and null
  \<open>book_value_per_share\<close>, \<open>price_to_book\<close> and \<open>enterprise_value\<close>.
\<close>

theorem process_data_price_only:
  "prices raw_data \<noteq> [] \<and> process_data raw_data = Inr rows \<longrightarrow>
     collect_metrics main_row (merged_frame (sort_key p_date (prices raw_data)) fund_df) [] = []
   \<and> rows = collect_metrics fallback_row (fallback_frame (sort_key p_date (prices raw_data))) []
   \<and> process_data (raw_data\<lparr>fundamentals := []\<rparr>) = Inr rows
   \<and> (\<forall>m \<in> set rows. m_ticker m = [] \<and> m_book_value_per_share m = None
          \<and> m_price_to_book m = None \<and> m_enterprise_value m = None)"
proof (intro impI)
  assume a: "prices raw_data \<noteq> [] \<and> process_data raw_data = Inr rows"
  let ?pd = "sort_key p_date (prices raw_data)"
  have rows: "rows = collect_metrics fallback_row (fallback_frame ?pd) []"
    using a by (simp add: process_data_rows)
  have indep: "process_data (raw_data\<lparr>fundamentals := []\<rparr>) = Inr rows"
    using a process_data_returns[of "raw_data\<lparr>fundamentals := []\<rparr>"] by (simp add: rows)
  have fields: "m_ticker m = [] \<and> m_book_value_per_share m = None
          \<and> m_price_to_book m = None \<and> m_enterprise_value m = None" if "m \<in> set rows" for m
  proof -
    from that obtain row where r: "row \<in> set (fallback_frame ?pd)" "\<not> isl (fallback_row row)"
        "m = projr (fallback_row row)"
      unfolding rows by (auto simp: collect_metrics_acc)
    then have "fallback_row row = Inr m" by (cases "fallback_row row") auto
    with r(1) show ?thesis by (rule fallback_row_fields)
  qed
  show "collect_metrics main_row (merged_frame ?pd fund_df) [] = []
   \<and> rows = collect_metrics fallback_row (fallback_frame ?pd) []
   \<and> process_data (raw_data\<lparr>fundamentals := []\<rparr>) = Inr rows
   \<and> (\<forall>m \<in> set rows. m_ticker m = [] \<and> m_book_value_per_share m = None
          \<and> m_price_to_book m = None \<and> m_enterprise_value m = None)"
    using rows indep fields main_loop_empty by blast
qed

theorem process_data_price_only_witness:
  "prices scenario \<noteq> [] \<and> process_data scenario = Inr scenario_rows
     \<and> process_data (scenario\<lparr>fundamentals := []\<rparr>) = Inr scenario_rows
     \<and> map m_ticker scenario_rows = [[], [], []]
     \<and> map m_book_value_per_share scenario_rows = [None, None, None]"
proof -
  have h: "prices scenario \<noteq> [] \<and> process_data scenario = Inr scenario_rows"
    using scenario_eval by (simp add: scenario_def)
  from process_data_price_only[of scenario scenario_rows] h
  have "process_data (scenario\<lparr>fundamentals := []\<rparr>) = Inr scenario_rows" by blast
  with h show ?thesis by (simp add: scenario_rows_def)
qed

subsection \<open>Length of the result\<close>

text \<open>
  Claim C6, as amended. Zero price rows give the empty result and no exception. When
  \<open>process_data\<close> returns, which it does whenever the fundamentals are empty or have
  distinct dates, the result is never longer than the price list, and it is as long as
  the price list unless a row was dropped because its conversion to \<open>DailyMetrics\<close>
  raised: the rows of the result and the rows of the fallback frame whose conversion
  raises are together as many as the prices. The loop keeps this account for every
  conversion and every frame.
\<close>

theorem process_data_length:
  "(prices raw_data = [] \<longrightarrow> process_data raw_data = Inr [])
   \<and> (fundamentals raw_data = [] \<or> distinct (map f_as_of (fundamentals raw_data)) \<longrightarrow>
        (\<exists>rows. process_data raw_data = Inr rows))
   \<and> (process_data raw_data = Inr rows \<longrightarrow>
        length rows \<le> length (prices raw_data)
      \<and> length rows
          + length (filter (\<lambda>row. isl (fallback_row row))
                      (fallback_frame (sort_key p_date (prices raw_data))))
          = length (prices raw_data))
   \<and> length (collect_metrics conv frame [])
        + length (filter (\<lambda>row. isl (conv row)) frame) = length frame"
proof -
  let ?pd = "sort_key p_date (prices raw_data)"
  have acc: "length (collect_metrics cv fr []) + length (filter (\<lambda>row. isl (cv row)) fr) = length fr"
    for cv :: "MergedRow \<Rightarrow> error + DailyMetrics" and fr
    using sum_length_filter_compl[of "\<lambda>row. isl (cv row)" fr]
    by (simp add: collect_metrics_acc)
  have a: "prices raw_data = [] \<longrightarrow> process_data raw_data = Inr []"
    by (simp add: process_data_def)
  have b: "fundamentals raw_data = [] \<or> distinct (map f_as_of (fundamentals raw_data)) \<longrightarrow>
        (\<exists>rows. process_data raw_data = Inr rows)"
    using process_data_returns[of raw_data] by blast
  have c: "length rows \<le> length (prices raw_data)
      \<and> length rows + length (filter (\<lambda>row. isl (fallback_row row)) (fallback_frame ?pd))
          = length (prices raw_data)"
    if r: "process_data raw_data = Inr rows"
  proof (cases "prices raw_data = []")
    case True
    then have "rows = []" using r by (simp add: process_data_def)
    then show ?thesis using True by (simp add: fallback_frame_def)
  next
    case False
    have rows: "rows = collect_metrics fallback_row (fallback_frame ?pd) []"
      using r False by (rule process_data_rows)
    have "length rows + length (filter (\<lambda>row. isl (fallback_row row)) (fallback_frame ?pd))
        = length (prices raw_data)"
      unfolding rows using acc[of fallback_row "fallback_frame ?pd"]
      by (simp add: fallback_frame_length)
    then show ?thesis by simp
  qed
  show ?thesis using a b c acc[of conv frame] by blast
qed

theorem process_data_length_witness:
  "process_data scenario = Inr scenario_rows
     \<and> distinct (map f_as_of (fundamentals scenario))
     \<and> length scenario_rows \<le> length (prices scenario)
     \<and> process_data \<lparr>prices = [], fundamentals = fundamentals scenario\<rparr> = Inr []"
proof -
  have dist: "distinct (map f_as_of (fundamentals scenario))"
    by (simp add: scenario_def)
  have len: "length scenario_rows \<le> length (prices scenario)"
    using process_data_length[of scenario scenario_rows] scenario_eval by blast
  have emp: "process_data \<lparr>prices = [], fundamentals = fundamentals scenario\<rparr> = Inr []"
    using process_data_length[of "\<lparr>prices = [], fundamentals = fundamentals scenario\<rparr>" "[]"]
    by simp
  show ?thesis using scenario_eval dist len emp by blast
qed

text \<open>
  The claim as stated fails: both price rows of \<open>drop_input\<close> have a date and a close,
  and the result has one row.
\<close>

theorem process_data_length_counterexample:
  "process_data drop_input =
     Inr [\<lparr>m_date = 738522, m_ticker = [], m_close = 5, m_sma_50 = Some (5 / 2),
           m_sma_200 = Some (5 / 2), m_high_52w = Some 5, m_pct_from_high_52w = Some 0,
           m_book_value_per_share = None, m_price_to_book = None, m_enterprise_value = None\<rparr>]
   \<and> length (prices drop_input) = 2"
  by code_simp

subsection \<open>Empty fundamentals\<close>

text \<open>
  Claim C7. With no fundamentals and the single price row of \<open>zero_input\<close>, which passes
  the validation of \<open>PriceData\<close>, the frame of the fallback has a \<open>pct_from_high_52w\<close> that
  is not a number, the row is dropped, and \<open>process_data\<close> returns no row at all.
\<close>

theorem empty_fundamentals_zero_close:
  "fundamentals zero_input = [] \<and> length (prices zero_input) = 1
     \<and> check_price_relationships (hd (prices zero_input)) = Inr (hd (prices zero_input))
     \<and> map g_pct_from_high_52w (fallback_frame (sort_key p_date (prices zero_input))) = [NaN]
     \<and> process_data zero_input = Inr []"
  by code_simp

subsection \<open>Duplicate dates in the fundamentals\<close>

text \<open>
  Claim C10, as amended. With a non-empty price list and two fundamental observations
  of the same \<open>as_of\<close> date, \<open>process_data\<close> raises the error of the forward-fill reindex
  and returns nothing, unless the sorted \<open>as_of\<close> dates are exactly the sorted price
  dates; that needs a date repeated among the prices, so the error is raised whenever
  the price dates are distinct.
\<close>

theorem process_data_duplicate_as_of:
  "prices raw_data \<noteq> [] \<and> \<not> distinct (map f_as_of (fundamentals raw_data)) \<longrightarrow>
     process_data raw_data =
       (if map f_as_of (sort_key f_as_of (fundamentals raw_data))
             = map p_date (sort_key p_date (prices raw_data))
        then Inr (collect_metrics fallback_row
                    (fallback_frame (sort_key p_date (prices raw_data))) [])
        else Inl (ValueError ''cannot reindex on an axis with duplicate labels''))
   \<and> (distinct (map p_date (prices raw_data)) \<longrightarrow>
        process_data raw_data = Inl (ValueError ''cannot reindex on an axis with duplicate labels''))"
proof (intro impI)
  assume a: "prices raw_data \<noteq> [] \<and> \<not> distinct (map f_as_of (fundamentals raw_data))"
  then have ne: "fundamentals raw_data \<noteq> []" by auto
  have char: "process_data raw_data =
       (if map f_as_of (sort_key f_as_of (fundamentals raw_data))
             = map p_date (sort_key p_date (prices raw_data))
        then Inr (collect_metrics fallback_row
                    (fallback_frame (sort_key p_date (prices raw_data))) [])
        else Inl (ValueError ''cannot reindex on an axis with duplicate labels''))"
    using a ne by (simp add: process_data_fallback build_fund_df_ok)
  have differ: "map f_as_of (sort_key f_as_of (fundamentals raw_data))
        \<noteq> map p_date (sort_key p_date (prices raw_data))"
    if d: "distinct (map p_date (prices raw_data))"
  proof
    assume "map f_as_of (sort_key f_as_of (fundamentals raw_data))
        = map p_date (sort_key p_date (prices raw_data))"
    then have "distinct (map f_as_of (sort_key f_as_of (fundamentals raw_data)))
        = distinct (map p_date (sort_key p_date (prices raw_data)))"
      by simp
    then show False using a d by (simp add: distinct_keys_sort)
  qed
  show "process_data raw_data =
       (if map f_as_of (sort_key f_as_of (fundamentals raw_data))
             = map p_date (sort_key p_date (prices raw_data))
        then Inr (collect_metrics fallback_row
                    (fallback_frame (sort_key p_date (prices raw_data))) [])
        else Inl (ValueError ''cannot reindex on an axis with duplicate labels''))
   \<and> (distinct (map p_date (prices raw_data)) \<longrightarrow>
        process_data raw_data = Inl (ValueError ''cannot reindex on an axis with duplicate labels''))"
    using char differ by simp
qed

theorem process_data_duplicate_as_of_witness:
  "prices dup_input \<noteq> [] \<and> \<not> distinct (map f_as_of (fundamentals dup_input))
     \<and> distinct (map p_date (prices dup_input))
     \<and> process_data dup_input = Inl (ValueError ''cannot reindex on an axis with duplicate labels'')"
proof -
  have h: "prices dup_input \<noteq> [] \<and> \<not> distinct (map f_as_of (fundamentals dup_input))"
    by (simp add: dup_input_def test_fundamental_def)
  have d: "distinct (map p_date (prices dup_input))"
    by (simp add: dup_input_def)
  from process_data_duplicate_as_of[of dup_input] h d show ?thesis by blast
qed

text \<open>
  The claim as stated fails: in \<open>dup_same_input\<close> the two observations have one date and
  the two price rows have that date too, the index of the fundamentals equals the
  requested labels, and \<open>process_data\<close> returns.
\<close>

theorem process_data_duplicate_as_of_counterexample:
  "prices dup_same_input \<noteq> [] \<and> \<not> distinct (map f_as_of (fundamentals dup_same_input))
     \<and> process_data dup_same_input =
         Inr [\<lparr>m_date = 738520, m_ticker = [], m_close = 11, m_sma_50 = Some 11,
               m_sma_200 = Some 11, m_high_52w = Some 11, m_pct_from_high_52w = Some 0,
               m_book_value_per_share = None, m_price_to_book = None, m_enterprise_value = None\<rparr>,
              \<lparr>m_date = 738520, m_ticker = [], m_close = 12, m_sma_50 = Some (23 / 2),
               m_sma_200 = Some (23 / 2), m_high_52w = Some 12, m_pct_from_high_52w = Some 0,
               m_book_value_per_share = None, m_price_to_book = None, m_enterprise_value = None\<rparr>]"
  by code_simp

subsection \<open>Fundamental fields of the result\<close>

text \<open>
  Claim C1. For \<open>carry_input\<close> the forward fill attaches the observation of 2022-12-31 to
  the price date, with book value 10 and enterprise value 200, yet the row that
  \<open>process_data\<close> returns for that date has null fundamental fields.
\<close>

theorem carry_forward_lost:
  "ffill_row (sort_key f_as_of (fundamentals carry_input)) 738521 = float_cols test_fundamental
     \<and> f_book_value test_fundamental = Some 10 \<and> f_enterprise_value test_fundamental = Some 200
     \<and> process_data carry_input =
         Inr [\<lparr>m_date = 738521, m_ticker = [], m_close = 11, m_sma_50 = Some 11,
               m_sma_200 = Some 11, m_high_52w = Some 11, m_pct_from_high_52w = Some 0,
               m_book_value_per_share = None, m_price_to_book = None,
               m_enterprise_value = None\<rparr>]"
  by code_simp

text \<open>
  Claim C2. For the three closes 11, 12, 13 and one observation of the day before with
  book value 10, \<open>process_data\<close> returns three rows and \<open>sma_50\<close> of the third day is
  \<open>(11 + 12 + 13) / 3\<close>, but \<open>book_value_per_share\<close> and \<open>price_to_book\<close> are null on all
  three rows.
\<close>

theorem scenario_output:
  "process_data scenario = Inr scenario_rows
     \<and> length scenario_rows = 3
     \<and> m_sma_50 (scenario_rows ! 2) = Some ((11 + 12 + 13) / 3)
     \<and> map m_book_value_per_share scenario_rows = [None, None, None]
     \<and> map m_price_to_book scenario_rows = [None, None, None]"
  using scenario_eval by (simp add: scenario_rows_def)

text \<open>
  Claim C4. For \<open>ratio_input\<close> the merged frame holds the book values 10 and \<open>nan\<close> and the
  ratios 11/10 and \<open>nan\<close> (not null, for the missing book value), and the rows that
  \<open>process_data\<close> returns have a null \<open>price_to_book\<close> on both dates.
\<close>

theorem price_to_book_lost:
  "map g_book_value_per_share
       (merged_frame (sort_key p_date (prices ratio_input))
          (projr (build_fund_df (fundamentals ratio_input) (sort_key p_date (prices ratio_input)))))
     = [Some (Num 10), Some NaN]
   \<and> map g_price_to_book
       (merged_frame (sort_key p_date (prices ratio_input))
          (projr (build_fund_df (fundamentals ratio_input) (sort_key p_date (prices ratio_input)))))
     = [Some (Num (11 / 10)), Some NaN]
   \<and> process_data ratio_input =
       Inr [\<lparr>m_date = 738521, m_ticker = [], m_close = 11, m_sma_50 = Some 11,
             m_sma_200 = Some 11, m_high_52w = Some 11, m_pct_from_high_52w = Some 0,
             m_book_value_per_share = None, m_price_to_book = None, m_enterprise_value = None\<rparr>,
            \<lparr>m_date = 738522, m_ticker = [], m_close = 12, m_sma_50 = Some (23 / 2),
             m_sma_200 = Some (23 / 2), m_high_52w = Some 12, m_pct_from_high_52w = Some 0,
             m_book_value_per_share = None, m_price_to_book = None, m_enterprise_value = None\<rparr>]"
  by code_simp

end
